theory Spec2Isabelle
  imports Main "HOL-Library.Sublist"
begin

section \<open>JavaScript strings\<close>

text \<open>
  The program is the Express server of the repository.  Its strings are modelled as
  \<^typ>\<open>string\<close>, a list of \<^typ>\<open>char\<close>, each character standing for one code unit in
  the range U+0000 .. U+00FF.  On this range \<^verbatim>\<open>trim\<close>, \<^verbatim>\<open>toLowerCase\<close> and the regular
  expression class \<^verbatim>\<open>\W\<close> are written out exactly as ECMAScript defines them; text
  with code units above U+00FF is outside the model.
\<close>

definition code_unit :: "char \<Rightarrow> nat" where
  "code_unit c = of_char c"

text \<open>White space and line terminators that \<^verbatim>\<open>String.prototype.trim\<close> strips: TAB, LF, VT,
  FF, CR, SP and NBSP.\<close>

definition is_js_space :: "char \<Rightarrow> bool" where
  "is_js_space c = (code_unit c \<in> {9, 10, 11, 12, 13, 32, 160})"

definition trim :: "string \<Rightarrow> string" where
  "trim s = rev (dropWhile is_js_space (rev (dropWhile is_js_space s)))"

text \<open>\<^verbatim>\<open>toLowerCase\<close>: A-Z, and the Latin-1 capitals U+00C0 .. U+00DE other than the
  multiplication sign U+00D7, move up by 32; every other code unit of the range stays.\<close>

definition lower_char :: "char \<Rightarrow> char" where
  "lower_char c =
     (let n = code_unit c
      in if (65 \<le> n \<and> n \<le> 90) \<or> (192 \<le> n \<and> n \<le> 222 \<and> n \<noteq> 215)
         then char_of (n + 32) else c)"

definition toLowerCase :: "string \<Rightarrow> string" where
  "toLowerCase s = map lower_char s"

text \<open>\<^verbatim>\<open>s.startsWith(t)\<close> and \<^verbatim>\<open>s.includes(t)\<close>.\<close>

fun startsWith :: "string \<Rightarrow> string \<Rightarrow> bool" where
  "startsWith s [] = True"
| "startsWith [] (c # t) = False"
| "startsWith (d # s) (c # t) = (d = c \<and> startsWith s t)"

fun includes_str :: "string \<Rightarrow> string \<Rightarrow> bool" where
  "includes_str [] t = (t = [])"
| "includes_str (d # s) t = (startsWith (d # s) t \<or> includes_str s t)"

text \<open>\<^verbatim>\<open>s.split(',')\<close>: the pieces between the separators; the result is never empty, and
  the empty string splits into one empty piece.\<close>

fun split_char :: "char \<Rightarrow> string \<Rightarrow> string list" where
  "split_char sep [] = [[]]"
| "split_char sep (c # s) =
     (if c = sep then [] # split_char sep s
      else (case split_char sep s of
              [] \<Rightarrow> [[c]]
            | w # ws \<Rightarrow> (c # w) # ws))"

text \<open>\<^verbatim>\<open>xs.join(sep)\<close>.\<close>

fun join :: "string \<Rightarrow> string list \<Rightarrow> string" where
  "join sep [] = []"
| "join sep [x] = x"
| "join sep (x # y # ys) = x @ sep @ join sep (y # ys)"

text \<open>\<^verbatim>\<open>.filter(Boolean)\<close> on strings keeps the non-empty ones.\<close>

definition filter_Boolean :: "string list \<Rightarrow> string list" where
  "filter_Boolean xs = filter (\<lambda>t. t \<noteq> []) xs"

text \<open>The word characters of \<^verbatim>\<open>\w\<close> (no \<^verbatim>\<open>u\<close> or \<^verbatim>\<open>i\<close> flag): digits, ASCII letters and the
  underscore.\<close>

definition is_word_char :: "char \<Rightarrow> bool" where
  "is_word_char c =
     (let n = code_unit c
      in (48 \<le> n \<and> n \<le> 57) \<or> (65 \<le> n \<and> n \<le> 90) \<or> n = 95 \<or> (97 \<le> n \<and> n \<le> 122))"

text \<open>\<^verbatim>\<open>s.split(/\W+/)\<close>: \<open>cur\<close> is the piece being read.  A run of non-word characters
  closes the piece; a run at the start or at the end of the string leaves an empty piece
  there, as in JavaScript.\<close>

function split_nonword :: "string \<Rightarrow> string \<Rightarrow> string list" where
  "split_nonword cur [] = [cur]"
| "split_nonword cur (c # s) =
     (if is_word_char c then split_nonword (cur @ [c]) s
      else cur # split_nonword [] (dropWhile (\<lambda>d. \<not> is_word_char d) s))"
  by pat_completeness auto
termination
  by (relation "measure (\<lambda>(cur, s). length s)")
     (auto simp: less_Suc_eq_le length_dropWhile_le)

text \<open>A value that may be \<^verbatim>\<open>undefined\<close> is an option.  \<^verbatim>\<open>a || b\<close> on such strings takes
  \<open>b\<close> when \<open>a\<close> is undefined or empty; interpolating \<^verbatim>\<open>undefined\<close> or \<^verbatim>\<open>null\<close> into a
  template prints the word.\<close>

definition truthy :: "string option \<Rightarrow> bool" where
  "truthy a = (case a of None \<Rightarrow> False | Some s \<Rightarrow> s \<noteq> [])"

definition or_else :: "string option \<Rightarrow> string option \<Rightarrow> string option" where
  "or_else a b = (if truthy a then a else b)"

definition or_empty :: "string option \<Rightarrow> string" where
  "or_empty a = (case a of None \<Rightarrow> [] | Some s \<Rightarrow> s)"

text \<open>\<^verbatim>\<open>xs || []\<close> on an array that may be missing.\<close>

definition or_nil :: "'a list option \<Rightarrow> 'a list" where
  "or_nil a = (case a of None \<Rightarrow> [] | Some xs \<Rightarrow> xs)"

definition interpolate :: "string option \<Rightarrow> string" where
  "interpolate a = (case a of None \<Rightarrow> ''undefined'' | Some s \<Rightarrow> s)"

section \<open>HTTP responses and thrown values\<close>

text \<open>What a \<^verbatim>\<open>catch\<close> block can receive: the rejection of an \<^verbatim>\<open>axios.get\<close> with its
  message, a \<^verbatim>\<open>TypeError\<close> of the runtime, an error of an \<^verbatim>\<open>fs\<close> call, an error of the
  image library, and the errors that the upload middleware builds.\<close>

datatype thrown =
    Rejected string
  | Type_error
  | Fs_error
  | Sharp_error
  | Filter_error string
  | Limit_file_size

text \<open>A response is a status code and a body.  \<open>Error\<close> is \<^verbatim>\<open>{ error }\<close>, \<open>Error_details\<close> is
  \<^verbatim>\<open>{ error, details: err.message }\<close>, \<open>Error_page\<close> is the page of the framework's own error
  handler, \<open>Payload\<close> is the JSON of a success.\<close>

datatype 'a body =
    Error string
  | Error_details string thrown
  | Error_page thrown
  | Payload 'a

datatype 'a response = Response (status: nat) (body: "'a body")

section \<open>Search: the query\<close>

text \<open>\<^verbatim>\<open>termsRaw.split(',').map(t => t.trim()).filter(Boolean)\<close> with
  \<^verbatim>\<open>termsRaw = req.query.terms || ''\<close>.\<close>

definition search_terms :: "string option \<Rightarrow> string list" where
  "search_terms terms_param =
     filter_Boolean (map trim (split_char CHR '','' (or_empty terms_param)))"

text \<open>\<^verbatim>\<open>t.includes(' ') ? `"${t}"` : t\<close>\<close>

definition quote_term :: "string \<Rightarrow> string" where
  "quote_term t = (if includes_str t '' '' then [CHR 0x22] @ t @ [CHR 0x22] else t)"

definition build_query :: "string list \<Rightarrow> string" where
  "build_query terms = join '' OR '' (map quote_term terms) @ '' restaurants in Hong Kong''"

section \<open>The metadata file and the uploads directory\<close>

text \<open>One entry of \<^verbatim>\<open>metadata.json\<close>, as the upload endpoint builds it.  The two derived
  images are \<^verbatim>\<open>null\<close> when they could not be made.  Several objects of the program have
  fields of the same name; the fields of an entry carry the prefix \<open>rec_\<close> here, those of a
  search result \<open>sum_\<close>, those of the place answer \<open>pd_\<close>, those of a listed user photo
  \<open>up_\<close>, and the provider's objects keep the plain names.\<close>

record upload_record =
  rec_id :: string
  rec_filename :: string
  rec_url :: string
  rec_thumb_url :: "string option"
  rec_preview_url :: "string option"
  rec_place_id :: string
  rec_dish :: string
  rec_uploader_name :: string
  rec_created_at :: string

text \<open>The state of \<^verbatim>\<open>META_FILE\<close>, by what \<^verbatim>\<open>readMetadata\<close> meets there: no file that can be read
  (\<^verbatim>\<open>readFileSync\<close> throws), text that is not JSON (\<^verbatim>\<open>JSON.parse\<close> throws), JSON that is
  not an array, or an array of entries.  An empty file is the empty array, by
  \<^verbatim>\<open>raw || '[]'\<close>.\<close>

datatype meta_file =
    Missing
  | Malformed
  | Not_array
  | Records "upload_record list"

text \<open>The file system is the part of it the server touches: the files of \<^verbatim>\<open>UPLOAD_DIR\<close> by
  name, \<^verbatim>\<open>metadata.json\<close> apart, and the metadata file.  A call of \<^verbatim>\<open>fs\<close> fails exactly when
  this state makes it fail (a file that is not there cannot be read or unlinked); faults of
  the host such as a full disk are not modelled.\<close>

record 'b store =
  files :: "string \<rightharpoonup> 'b"
  meta :: meta_file

text \<open>What \<^verbatim>\<open>readMetadata()\<close> returns: an array, or a value without array methods.\<close>

datatype parsed = Arr "upload_record list" | Other

definition readMetadata :: "'b store \<Rightarrow> parsed" where
  "readMetadata s =
     (case meta s of
        Missing \<Rightarrow> Arr []
      | Malformed \<Rightarrow> Arr []
      | Not_array \<Rightarrow> Other
      | Records rs \<Rightarrow> Arr rs)"

definition writeMetadata :: "upload_record list \<Rightarrow> 'b store \<Rightarrow> 'b store" where
  "writeMetadata arr s = s\<lparr>meta := Records arr\<rparr>"

definition unlinkSync :: "string \<Rightarrow> 'b store \<Rightarrow> thrown + 'b store" where
  "unlinkSync name s =
     (case files s name of
        None \<Rightarrow> Inl Fs_error
      | Some b \<Rightarrow> Inr (s\<lparr>files := (files s)(name := None)\<rparr>))"

section \<open>The places provider\<close>

text \<open>The fields of a place that the server reads, in a text-search result and in a
  details result.  \<open>geometry_location\<close> is \<^verbatim>\<open>geometry?.location\<close>, a value the server passes
  on unread.\<close>

record photo =
  photo_reference :: string

record review =
  author_name :: "string option"
  review_text :: "string option"
  rating :: "int option"
  relative_time_description :: "string option"
  author_url :: "string option"

record 'g place =
  place_id :: "string option"
  name :: "string option"
  formatted_address :: "string option"
  geometry_location :: "'g option"
  types :: "string list option"

record 'g place_result = "'g place" +
  photos :: "photo list option"
  reviews :: "review list option"

text \<open>The two calls of the provider.  \<open>Inl m\<close> is a rejected request with message \<open>m\<close>;
  \<open>Inr None\<close> is an answer without \<^verbatim>\<open>results\<close> (without \<^verbatim>\<open>result\<close>).  The details call takes
  the place id and the field list.\<close>

record 'g gateway =
  textsearch :: "string \<Rightarrow> string + 'g place list option"
  details :: "string option \<Rightarrow> string \<Rightarrow> string + 'g place_result option"

definition empty_result :: "'g place_result" where
  "empty_result =
     \<lparr>place_id = None, name = None, formatted_address = None, geometry_location = None,
      types = None, photos = None, reviews = None\<rparr>"

definition googleMapsUrl :: "string option \<Rightarrow> string" where
  "googleMapsUrl pid = ''https://www.google.com/maps/place/?q=place_id:'' @ interpolate pid"

section \<open>Search: the handler\<close>

record 'g summary =
  sum_place_id :: "string option"
  sum_name :: "string option"
  sum_address :: "string option"
  sum_location :: "'g option"
  sum_types :: "string list option"
  sum_thumbnail :: "string option"
  sum_maps_url :: string

definition search_fields :: string where
  "search_fields = ''name,geometry,formatted_address,photos,place_id,types,opening_hours''"

text \<open>\<^verbatim>\<open>a || b\<close> on values that are objects or arrays when they are there.\<close>

definition or_value :: "'a option \<Rightarrow> 'a option \<Rightarrow> 'a option" where
  "or_value a b = (case a of None \<Rightarrow> b | Some v \<Rightarrow> Some v)"

text \<open>\<^verbatim>\<open>metadata.find(m => m.place_id === pid && m.thumb_url)\<close>\<close>

definition user_thumb :: "upload_record list \<Rightarrow> string option \<Rightarrow> string option" where
  "user_thumb metadata pid =
     (case find (\<lambda>m. Some (rec_place_id m) = pid \<and> truthy (rec_thumb_url m)) metadata of
        None \<Rightarrow> None
      | Some userForPlace \<Rightarrow> rec_thumb_url userForPlace)"

definition thumbnail_of :: "'b store \<Rightarrow> 'g place \<Rightarrow> 'g place_result \<Rightarrow> thrown + string option" where
  "thumbnail_of s p d =
     (case photos d of
        Some (ph # phs) \<Rightarrow>
          Inr (Some (''/api/photo?photoreference='' @ photo_reference ph @ ''&maxwidth=400''))
      | _ \<Rightarrow>
          (case readMetadata s of
             Other \<Rightarrow> Inl Type_error
           | Arr metadata \<Rightarrow> Inr (user_thumb metadata (or_else (place_id d) (place_id p)))))"

definition summary_of :: "'g place \<Rightarrow> 'g place_result \<Rightarrow> string option \<Rightarrow> 'g summary" where
  "summary_of p d thumbnail =
     \<lparr>sum_place_id = or_else (place_id d) (place_id p),
      sum_name = or_else (name d) (name p),
      sum_address = or_else (formatted_address d) (formatted_address p),
      sum_location = or_value (geometry_location d) (geometry_location p),
      sum_types = or_value (types d) (types p),
      sum_thumbnail = thumbnail,
      sum_maps_url = googleMapsUrl (or_else (place_id d) (place_id p))\<rparr>"

text \<open>The body of \<^verbatim>\<open>limited.map(async (p) => ...)\<close>: one details call, then the summary.\<close>

definition place_summary :: "'g gateway \<Rightarrow> 'b store \<Rightarrow> 'g place \<Rightarrow> thrown + 'g summary" where
  "place_summary gw s p =
     (case details gw (place_id p) search_fields of
        Inl m \<Rightarrow> Inl (Rejected m)
      | Inr r \<Rightarrow>
          (let d = (case r of None \<Rightarrow> empty_result | Some v \<Rightarrow> v)
           in case thumbnail_of s p d of
                Inl e \<Rightarrow> Inl e
              | Inr thumbnail \<Rightarrow> Inr (summary_of p d thumbnail)))"

text \<open>\<^verbatim>\<open>Promise.all\<close>: the values in the order of the promises, or a rejection when one of
  them rejects.  The promises read the state and do not change it, so their interleaving
  does not show in the values.  When several reject, JavaScript reports the one that
  settles first; the model reports the first in the list, and no property below depends on
  which one is reported.\<close>

fun promise_all :: "(thrown + 'a) list \<Rightarrow> thrown + 'a list" where
  "promise_all [] = Inr []"
| "promise_all (x # xs) =
     (case x of
        Inl e \<Rightarrow> Inl e
      | Inr v \<Rightarrow> (case promise_all xs of Inl e \<Rightarrow> Inl e | Inr vs \<Rightarrow> Inr (v # vs)))"

text \<open>\<^verbatim>\<open>app.get('/api/search', ...)\<close>\<close>

definition api_search ::
  "'g gateway \<Rightarrow> 'b store \<Rightarrow> string option \<Rightarrow> (string \<times> 'g summary list) response" where
  "api_search gw s terms_param =
     (let terms = search_terms terms_param
      in if terms = [] then Response 400 (Error ''Missing terms parameter'')
         else
           (let query = build_query terms
            in case textsearch gw query of
                 Inl m \<Rightarrow> Response 500 (Error_details ''Search failed'' (Rejected m))
               | Inr r \<Rightarrow>
                   (let places = or_nil r;
                        limited = take 20 places
                    in case promise_all (map (place_summary gw s) limited) of
                         Inl e \<Rightarrow> Response 500 (Error_details ''Search failed'' e)
                       | Inr results \<Rightarrow> Response 200 (Payload (query, results)))))"

section \<open>Place details: the keywords\<close>

text \<open>\<^verbatim>\<open>wordCounts\<close> is a plain object used as a table.  Its own properties are kept in the
  order in which \<^verbatim>\<open>Object.entries\<close> lists them: first the keys that are array indices, in
  ascending numeric order, then the other keys in the order of their creation.\<close>

datatype jsval = Num nat | Str

datatype wordcounts = Obj (indexed: "(string \<times> jsval) list") (named: "(string \<times> jsval) list")

definition is_digit :: "char \<Rightarrow> bool" where
  "is_digit c = (48 \<le> code_unit c \<and> code_unit c \<le> 57)"

definition index_value :: "string \<Rightarrow> int" where
  "index_value k = foldl (\<lambda>a c. 10 * a + (int (code_unit c) - 48)) 0 k"

text \<open>An array index is the canonical decimal form of an integer from 0 to \<open>2\<^sup>3\<^sup>2 - 2\<close>.\<close>

definition is_array_index :: "string \<Rightarrow> bool" where
  "is_array_index k =
     (k \<noteq> [] \<and> list_all is_digit k \<and> (length k = 1 \<or> hd k \<noteq> CHR ''0'')
      \<and> index_value k \<le> 4294967294)"

definition entries :: "wordcounts \<Rightarrow> (string \<times> jsval) list" where
  "entries obj = indexed obj @ named obj"

definition own_property :: "wordcounts \<Rightarrow> string \<Rightarrow> jsval option" where
  "own_property obj k = map_of (entries obj) k"

fun replace_value :: "string \<Rightarrow> jsval \<Rightarrow> (string \<times> jsval) list \<Rightarrow> (string \<times> jsval) list" where
  "replace_value k v [] = []"
| "replace_value k v (e # es) =
     (if fst e = k then (k, v) # replace_value k v es else e # replace_value k v es)"

fun insert_index :: "string \<Rightarrow> jsval \<Rightarrow> (string \<times> jsval) list \<Rightarrow> (string \<times> jsval) list" where
  "insert_index k v [] = [(k, v)]"
| "insert_index k v (e # es) =
     (if index_value (fst e) \<le> index_value k then e # insert_index k v es
      else (k, v) # e # es)"

text \<open>Writing an own property: a key that is there keeps its place; a new one goes among
  the array indices, or to the end.\<close>

definition put_property :: "string \<Rightarrow> jsval \<Rightarrow> wordcounts \<Rightarrow> wordcounts" where
  "put_property k v obj =
     (if own_property obj k \<noteq> None
      then Obj (replace_value k v (indexed obj)) (replace_value k v (named obj))
      else if is_array_index k then Obj (insert_index k v (indexed obj)) (named obj)
      else Obj (indexed obj) (named obj @ [(k, v)]))"

text \<open>The lower-case names that an object literal inherits from \<^verbatim>\<open>Object.prototype\<close>.
  Reading one of them from \<^verbatim>\<open>wordCounts\<close> gives a function or an object, not
  \<^verbatim>\<open>undefined\<close>.\<close>

definition inherited_names :: "string list" where
  "inherited_names = [''constructor'', ''__proto__'']"

text \<open>\<^verbatim>\<open>(wordCounts[w] || 0) + 1\<close>: a number counts up; a string, or an inherited function
  or object, gives a string with \<^verbatim>\<open>1\<close> appended.\<close>

definition next_count :: "wordcounts \<Rightarrow> string \<Rightarrow> jsval" where
  "next_count obj w =
     (case own_property obj w of
        Some (Num n) \<Rightarrow> Num (n + 1)
      | Some Str \<Rightarrow> Str
      | None \<Rightarrow> if w \<in> set inherited_names then Str else Num 1)"

text \<open>\<^verbatim>\<open>wordCounts[w] = v\<close>: the inherited setter of \<^verbatim>\<open>__proto__\<close> takes the assignment and
  drops a value that is not an object, so no own property appears.\<close>

definition assign :: "string \<Rightarrow> jsval \<Rightarrow> wordcounts \<Rightarrow> wordcounts" where
  "assign w v obj = (if w = ''__proto__'' then obj else put_property w v obj)"

definition stop_words :: "string list" where
  "stop_words = [''the'', ''and'', ''of'', ''a'', ''is'', ''in'', ''to'', ''with'', ''on'']"

text \<open>The body of the \<^verbatim>\<open>forEach\<close>.\<close>

definition count_word :: "wordcounts \<Rightarrow> string \<Rightarrow> wordcounts" where
  "count_word obj w =
     (if length w \<le> 1 then obj
      else if w \<in> set stop_words then obj
      else assign w (next_count obj w) obj)"

definition allReviewText :: "review list \<Rightarrow> string" where
  "allReviewText rs = toLowerCase (join '' '' (map (\<lambda>r. or_empty (review_text r)) rs))"

definition wordCounts :: "review list \<Rightarrow> wordcounts" where
  "wordCounts rs = foldl count_word (Obj [] []) (split_nonword [] (allReviewText rs))"

text \<open>The comparator \<^verbatim>\<open>(a,b) => b[1] - a[1]\<close>; \<open>None\<close> is \<^verbatim>\<open>NaN\<close>, which \<^verbatim>\<open>sort\<close> reads
  as 0.\<close>

definition comparator :: "string \<times> jsval \<Rightarrow> string \<times> jsval \<Rightarrow> int option" where
  "comparator a b =
     (case (snd b, snd a) of
        (Num y, Num x) \<Rightarrow> Some (int y - int x)
      | _ \<Rightarrow> None)"

definition not_after :: "string \<times> jsval \<Rightarrow> string \<times> jsval \<Rightarrow> bool" where
  "not_after a b = (case comparator a b of None \<Rightarrow> True | Some d \<Rightarrow> d \<le> 0)"

text \<open>\<^verbatim>\<open>Array.prototype.sort\<close> is a stable sort (ECMAScript 2019).  With a consistent
  comparator its result is the one of any stable sort; insertion from the right is one.\<close>

fun insert_sorted :: "string \<times> jsval \<Rightarrow> (string \<times> jsval) list \<Rightarrow> (string \<times> jsval) list" where
  "insert_sorted a [] = [a]"
| "insert_sorted a (b # bs) =
     (if not_after a b then a # b # bs else b # insert_sorted a bs)"

definition sort_entries :: "(string \<times> jsval) list \<Rightarrow> (string \<times> jsval) list" where
  "sort_entries es = foldr insert_sorted es []"

definition is_num :: "jsval \<Rightarrow> bool" where
  "is_num v = (case v of Num n \<Rightarrow> True | Str \<Rightarrow> False)"

text \<open>When a count is a string the comparator answers \<^verbatim>\<open>NaN\<close> for it, it is not a
  consistent comparator, and ECMAScript leaves the order of the result to the
  implementation: the model gives no list then.\<close>

datatype candidates = Candidates "string list" | Unspecified_order

definition dish_candidates :: "review list \<Rightarrow> candidates" where
  "dish_candidates rs =
     (let es = entries (wordCounts rs)
      in if list_all (\<lambda>e. is_num (snd e)) es
         then Candidates (map fst (take 10 (sort_entries es)))
         else Unspecified_order)"

section \<open>Place details: the handler\<close>

text \<open>\<^verbatim>\<open>termsRaw.split(',').map(t => t.trim().toLowerCase()).filter(Boolean)\<close>\<close>

definition place_terms :: "string option \<Rightarrow> string list" where
  "place_terms terms_param =
     filter_Boolean (map (\<lambda>t. toLowerCase (trim t)) (split_char CHR '','' (or_empty terms_param)))"

text \<open>\<^verbatim>\<open>terms.some(t => s.includes(t))\<close>\<close>

definition some_included :: "string list \<Rightarrow> string \<Rightarrow> bool" where
  "some_included terms s = list_ex (\<lambda>t. includes_str s t) terms"

definition reviewsWithTerms :: "string list \<Rightarrow> review list \<Rightarrow> review list" where
  "reviewsWithTerms terms rs =
     filter (\<lambda>r. let txt = toLowerCase (or_empty (review_text r))
                 in if length terms = 0 then False else some_included terms txt) rs"

record photo_out =
  out_photo_reference :: string
  out_url :: string

record user_photo =
  up_id :: string
  up_url :: string
  up_thumb_url :: "string option"
  up_preview_url :: "string option"
  up_dish :: string
  up_uploader_name :: string
  up_created_at :: string

definition user_photo_of :: "upload_record \<Rightarrow> user_photo" where
  "user_photo_of m =
     \<lparr>up_id = rec_id m, up_url = rec_url m, up_thumb_url = rec_thumb_url m,
      up_preview_url = rec_preview_url m, up_dish = rec_dish m,
      up_uploader_name = rec_uploader_name m, up_created_at = rec_created_at m\<rparr>"

definition userPhotos :: "upload_record list \<Rightarrow> string \<Rightarrow> string list \<Rightarrow> user_photo list" where
  "userPhotos metadata pid terms =
     map user_photo_of
       (filter (\<lambda>m. if length terms = 0 then True
                     else some_included terms (toLowerCase (rec_dish m)))
          (filter (\<lambda>m. rec_place_id m = pid) metadata))"

record 'g place_detail =
  pd_place_id :: "string option"
  pd_name :: "string option"
  pd_address :: "string option"
  pd_location :: "'g option"
  pd_photos :: "photo_out list"
  pd_reviews :: "review list"
  pd_reviewsWithTerms :: "review list"
  pd_dishCandidates :: candidates
  pd_maps_url :: string
  pd_userPhotos :: "user_photo list"

definition place_fields :: string where
  "place_fields = ''name,geometry,formatted_address,photos,place_id,review,reviews''"

definition photo_out_of :: "photo \<Rightarrow> photo_out" where
  "photo_out_of p =
     \<lparr>out_photo_reference = photo_reference p,
      out_url = ''/api/photo?photoreference='' @ photo_reference p @ ''&maxwidth=800''\<rparr>"

definition review_of :: "review \<Rightarrow> review" where
  "review_of r =
     \<lparr>author_name = author_name r, review_text = review_text r, rating = rating r,
      relative_time_description = relative_time_description r, author_url = author_url r\<rparr>"

text \<open>\<^verbatim>\<open>app.get('/api/place', ...)\<close>\<close>

definition api_place ::
  "'g gateway \<Rightarrow> 'b store \<Rightarrow> string option \<Rightarrow> string option \<Rightarrow> 'g place_detail response" where
  "api_place gw s place_id_param terms_param =
     (let terms = place_terms terms_param
      in case place_id_param of
           None \<Rightarrow> Response 400 (Error ''Missing place_id'')
         | Some pid \<Rightarrow>
             if pid = [] then Response 400 (Error ''Missing place_id'')
             else
               (case details gw (Some pid) place_fields of
                  Inl m \<Rightarrow> Response 500 (Error_details ''Place fetch failed'' (Rejected m))
                | Inr r \<Rightarrow>
                    (let place = (case r of None \<Rightarrow> empty_result | Some v \<Rightarrow> v);
                         phs = map photo_out_of (or_nil (photos place));
                         rs = map review_of (or_nil (reviews place));
                         with_terms = reviewsWithTerms terms rs;
                         cands = dish_candidates rs
                     in case readMetadata s of
                          Other \<Rightarrow> Response 500 (Error_details ''Place fetch failed'' Type_error)
                        | Arr metadata \<Rightarrow>
                            Response 200 (Payload
                              \<lparr>pd_place_id = place_id place,
                               pd_name = name place,
                               pd_address = formatted_address place,
                               pd_location = geometry_location place,
                               pd_photos = phs,
                               pd_reviews = rs,
                               pd_reviewsWithTerms = with_terms,
                               pd_dishCandidates = cands,
                               pd_maps_url = googleMapsUrl (place_id place),
                               pd_userPhotos = userPhotos metadata pid terms\<rparr>))))"

section \<open>Upload\<close>

text \<open>The uploaded part as the middleware sees it, and the form fields of the request.\<close>

record 'b upload_file =
  originalname :: string
  mimetype :: string
  size_bytes :: nat
  content :: 'b

record 'b upload_request =
  file_part :: "'b upload_file option"
  body_place_id :: "string option"
  body_dish :: "string option"
  body_uploader_name :: "string option"

text \<open>What the handler takes from outside the request: the two values of \<^verbatim>\<open>uuidv4()\<close>, the
  clock, \<^verbatim>\<open>path.extname\<close>, and the image library: \<open>sharp_jpeg b w q\<close> is the JPEG of \<open>b\<close>
  rotated, resized to width at most \<open>w\<close> and encoded at quality \<open>q\<close>, or \<open>None\<close> when the
  library throws.\<close>

record 'b env =
  uuid_file :: string
  uuid_record :: string
  now :: string
  extname :: "string \<Rightarrow> string"
  sharp_jpeg :: "'b \<Rightarrow> nat \<Rightarrow> nat \<Rightarrow> 'b option"

definition fileSize_limit :: nat where
  "fileSize_limit = 12 * 1024 * 1024"

text \<open>\<^verbatim>\<open>filename\<close> of the disk storage: \<^verbatim>\<open>path.extname(file.originalname) || '.jpg'\<close> after the
  identifier.\<close>

definition storage_filename :: "'b env \<Rightarrow> 'b upload_file \<Rightarrow> string" where
  "storage_filename ev f =
     uuid_file ev @ (if extname ev (originalname f) = [] then ''.jpg''
                     else extname ev (originalname f))"

definition fileFilter :: "'b upload_file \<Rightarrow> thrown + bool" where
  "fileFilter f =
     (if \<not> startsWith (mimetype f) ''image/'' then Inl (Filter_error ''Only image files are allowed'')
      else Inr True)"

text \<open>\<^verbatim>\<open>upload.single('photo')\<close>: without a file part the handler runs with no \<^verbatim>\<open>req.file\<close>; a
  part that the filter refuses is not stored and its error goes to \<^verbatim>\<open>next\<close>; a part over
  the size limit is removed again and the limit error goes to \<^verbatim>\<open>next\<close>; any other part is
  written to the uploads directory under its storage name.\<close>

definition upload_single ::
  "'b env \<Rightarrow> 'b store \<Rightarrow> 'b upload_request \<Rightarrow> 'b store \<times> (thrown + string option)" where
  "upload_single ev s req =
     (case file_part req of
        None \<Rightarrow> (s, Inr None)
      | Some f \<Rightarrow>
          (case fileFilter f of
             Inl e \<Rightarrow> (s, Inl e)
           | Inr accept \<Rightarrow>
               if size_bytes f > fileSize_limit
               then (s\<lparr>files := (files s)(storage_filename ev f := None)\<rparr>, Inl Limit_file_size)
               else (s\<lparr>files := (files s)(storage_filename ev f \<mapsto> content f)\<rparr>,
                     Inr (Some (storage_filename ev f)))))"

text \<open>The server installs no error handler of its own, so an error given to \<^verbatim>\<open>next\<close> is
  answered by the default handler of Express: the status is the \<^verbatim>\<open>status\<close> of the error
  when it has one, and 500 otherwise.  The errors of the middleware carry none.\<close>

definition default_error_handler :: "thrown \<Rightarrow> 'a response" where
  "default_error_handler e = Response 500 (Error_page e)"

text \<open>\<^verbatim>\<open>generateResizedVariants\<close>: the name of the stored file without its extension is the
  identifier.  The thumbnail is written before the preview is computed.\<close>

definition generateResizedVariants ::
  "'b env \<Rightarrow> 'b store \<Rightarrow> string \<Rightarrow> 'b store \<times> (thrown + string \<times> string)" where
  "generateResizedVariants ev s original =
     (let thumbFilename = uuid_file ev @ ''_thumb.jpg'';
          previewFilename = uuid_file ev @ ''_preview.jpg''
      in case files s original of
           None \<Rightarrow> (s, Inl Sharp_error)
         | Some b \<Rightarrow>
             (case sharp_jpeg ev b 400 80 of
                None \<Rightarrow> (s, Inl Sharp_error)
              | Some t \<Rightarrow>
                  (let s1 = s\<lparr>files := (files s)(thumbFilename \<mapsto> t)\<rparr>
                   in case files s1 original of
                        None \<Rightarrow> (s1, Inl Sharp_error)
                      | Some b1 \<Rightarrow>
                          (case sharp_jpeg ev b1 160 75 of
                             None \<Rightarrow> (s1, Inl Sharp_error)
                           | Some pv \<Rightarrow>
                               (s1\<lparr>files := (files s1)(previewFilename \<mapsto> pv)\<rparr>,
                                Inr (thumbFilename, previewFilename))))))"

definition new_record ::
  "'b env \<Rightarrow> string \<Rightarrow> string option \<Rightarrow> string option \<Rightarrow> string \<Rightarrow> 'b upload_request \<Rightarrow> upload_record" where
  "new_record ev filename thumbFilename previewFilename pid req =
     \<lparr>rec_id = uuid_record ev,
      rec_filename = filename,
      rec_url = ''/uploads/'' @ filename,
      rec_thumb_url = (case thumbFilename of None \<Rightarrow> None | Some t \<Rightarrow> Some (''/uploads/'' @ t)),
      rec_preview_url = (case previewFilename of None \<Rightarrow> None | Some t \<Rightarrow> Some (''/uploads/'' @ t)),
      rec_place_id = pid,
      rec_dish = or_empty (body_dish req),
      rec_uploader_name = or_empty (body_uploader_name req),
      rec_created_at = now ev\<rparr>"

text \<open>The handler of \<^verbatim>\<open>app.post('/api/upload', ...)\<close>, after the middleware.  \<open>stored\<close> is the
  name of \<^verbatim>\<open>req.file\<close> in the uploads directory.\<close>

definition upload_handler ::
  "'b env \<Rightarrow> 'b store \<Rightarrow> string option \<Rightarrow> 'b upload_request \<Rightarrow> 'b store \<times> upload_record response" where
  "upload_handler ev s stored req =
     (case stored of
        None \<Rightarrow> (s, Response 400 (Error ''Missing photo file''))
      | Some filename \<Rightarrow>
          if \<not> truthy (body_place_id req) then
            (case unlinkSync filename s of
               Inl e \<Rightarrow> (s, Response 500 (Error_details ''Upload failed'' e))
             | Inr s1 \<Rightarrow> (s1, Response 400 (Error ''Missing place_id'')))
          else
            (let (s1, variants) = generateResizedVariants ev s filename;
                 thumbFilename = (case variants of Inl e \<Rightarrow> None | Inr v \<Rightarrow> Some (fst v));
                 previewFilename = (case variants of Inl e \<Rightarrow> None | Inr v \<Rightarrow> Some (snd v))
             in case readMetadata s1 of
                  Other \<Rightarrow> (s1, Response 500 (Error_details ''Upload failed'' Type_error))
                | Arr metadata \<Rightarrow>
                    (let record = new_record ev filename thumbFilename previewFilename
                                    (or_empty (body_place_id req)) req
                     in (writeMetadata (metadata @ [record]) s1,
                         Response 201 (Payload record)))))"

text \<open>\<^verbatim>\<open>POST /api/upload\<close>: the middleware, then the handler or the error handler.\<close>

definition api_upload ::
  "'b env \<Rightarrow> 'b store \<Rightarrow> 'b upload_request \<Rightarrow> 'b store \<times> upload_record response" where
  "api_upload ev s req =
     (case upload_single ev s req of
        (s1, Inl e) \<Rightarrow> (s1, default_error_handler e)
      | (s1, Inr stored) \<Rightarrow> upload_handler ev s1 stored req)"

section \<open>The statements of the specification\<close>

text \<open>The query in the words of the specification: the terms joined by \<open>OR\<close>, a term that
  contains white space (\<open>claimed_query\<close>) or a space character (\<open>spaced_query\<close>) in double
  quotes, then the regional qualifier.\<close>

definition or_joined :: "string list \<Rightarrow> string" where
  "or_joined ts = (case ts of [] \<Rightarrow> [] | t # us \<Rightarrow> t @ concat (map (\<lambda>u. '' OR '' @ u) us))"

definition claimed_query :: "string list \<Rightarrow> string" where
  "claimed_query terms =
     or_joined (map (\<lambda>t. if list_ex is_js_space t then [CHR 0x22] @ t @ [CHR 0x22] else t) terms)
     @ '' restaurants in Hong Kong''"

definition spaced_query :: "string list \<Rightarrow> string" where
  "spaced_query terms =
     or_joined (map (\<lambda>t. if CHR '' '' \<in> set t then [CHR 0x22] @ t @ [CHR 0x22] else t) terms)
     @ '' restaurants in Hong Kong''"

text \<open>The candidates whose details a search request fetches.\<close>

definition detail_fetches :: "'g gateway \<Rightarrow> string option \<Rightarrow> 'g place list" where
  "detail_fetches gw tp =
     (let terms = search_terms tp
      in if terms = [] then []
         else (case textsearch gw (build_query terms) of
                 Inl m \<Rightarrow> []
               | Inr r \<Rightarrow> take 20 (or_nil r)))"

text \<open>The keywords in the words of the specification.  \<open>kept_tokens\<close> are the pieces of the
  lower-cased text between runs of non-word characters, without the pieces of length at
  most one and the stop words.  \<open>first_seen\<close> lists every element once, in the order of first
  occurrence.  \<open>by_count\<close> sorts keys by falling count with a stable sort, so that keys of
  equal count keep the order of \<open>keys\<close>, and takes the first ten.\<close>

definition kept_tokens :: "review list \<Rightarrow> string list" where
  "kept_tokens rs =
     filter (\<lambda>w. 1 < length w \<and> w \<notin> set stop_words) (split_nonword [] (allReviewText rs))"

definition first_seen :: "'a list \<Rightarrow> 'a list" where
  "first_seen xs = rev (remdups (rev xs))"

definition by_count :: "string list \<Rightarrow> string list \<Rightarrow> string list" where
  "by_count toks keys =
     map fst (take 10 (sort_key (\<lambda>e. - int (snd e)) (map (\<lambda>w. (w, count_list toks w)) keys)))"

text \<open>Ties in first-seen order, as the specification has it.\<close>

definition claimed_candidates :: "string list \<Rightarrow> string list" where
  "claimed_candidates toks = by_count toks (first_seen toks)"

text \<open>Ties in the order of the keys of the object: the tokens that are array indices in
  ascending numeric order, then the other tokens in first-seen order.\<close>

definition key_order :: "string list \<Rightarrow> string list" where
  "key_order toks =
     sort_key index_value (first_seen (filter is_array_index toks))
     @ first_seen (filter (\<lambda>w. \<not> is_array_index w) toks)"

definition listed_candidates :: "string list \<Rightarrow> string list" where
  "listed_candidates toks = by_count toks (key_order toks)"

text \<open>For the proofs: inserting behind the elements of smaller or equal key, the object
  that holds the counts of a list of tokens, and the counting step of a kept token.\<close>

fun insert_after :: "('a \<Rightarrow> int) \<Rightarrow> 'a \<Rightarrow> 'a list \<Rightarrow> 'a list" where
  "insert_after f w [] = [w]"
| "insert_after f w (y # ys) = (if f y \<le> f w then y # insert_after f w ys else w # y # ys)"

definition counted :: "string list \<Rightarrow> wordcounts" where
  "counted ps =
     Obj (map (\<lambda>k. (k, Num (count_list ps k)))
            (sort_key index_value (first_seen (filter is_array_index ps))))
         (map (\<lambda>k. (k, Num (count_list ps k)))
            (first_seen (filter (\<lambda>w. \<not> is_array_index w) ps)))"

definition step :: "wordcounts \<Rightarrow> string \<Rightarrow> wordcounts" where
  "step obj w = assign w (next_count obj w) obj"

section \<open>Examples\<close>

text \<open>A provider that lists \<open>n\<close> candidates for every query and answers every details
  call with one photo, except for the place ids in \<open>failing\<close>, whose calls are rejected.\<close>

definition example_place :: "nat \<Rightarrow> unit place" where
  "example_place n =
     \<lparr>place_id = Some (''place'' @ replicate n CHR ''x''), name = Some ''Name'',
      formatted_address = None, geometry_location = None, types = None\<rparr>"

definition example_gateway :: "nat \<Rightarrow> string list \<Rightarrow> unit gateway" where
  "example_gateway n failing =
     \<lparr>textsearch = (\<lambda>q. Inr (Some (map example_place [0..<n]))),
      details = (\<lambda>pid fields.
        if or_empty pid \<in> set failing then Inl ''timeout''
        else Inr (Some (empty_result\<lparr>place_id := pid, photos := Some [\<lparr>photo_reference = ''ref''\<rparr>]\<rparr>)))\<rparr>"

text \<open>An uploads directory without files, with the metadata file in the given state.\<close>

definition disk :: "meta_file \<Rightarrow> string store" where
  "disk m = \<lparr>files = Map.empty, meta = m\<rparr>"

definition example_store :: "string store" where
  "example_store = disk (Records [])"

definition example_summary :: "unit place \<Rightarrow> unit summary" where
  "example_summary p =
     summary_of p (empty_result\<lparr>place_id := place_id p, photos := Some [\<lparr>photo_reference = ''ref''\<rparr>]\<rparr>)
       (Some ''/api/photo?photoreference=ref&maxwidth=400'')"

text \<open>A provider that answers every details call with the given reviews.\<close>

definition example_review :: "string \<Rightarrow> review" where
  "example_review t =
     \<lparr>author_name = Some ''A'', review_text = Some t, rating = Some 5,
      relative_time_description = None, author_url = None\<rparr>"

definition review_gateway :: "review list \<Rightarrow> unit gateway" where
  "review_gateway rs =
     \<lparr>textsearch = (\<lambda>q. Inr None),
      details = (\<lambda>pid fields. Inr (Some (empty_result\<lparr>place_id := pid, reviews := Some rs\<rparr>)))\<rparr>"

definition example_record :: "string \<Rightarrow> string \<Rightarrow> string \<Rightarrow> upload_record" where
  "example_record i pid dish =
     \<lparr>rec_id = i, rec_filename = i @ ''.jpg'', rec_url = ''/uploads/'' @ i @ ''.jpg'',
      rec_thumb_url = None, rec_preview_url = None, rec_place_id = pid, rec_dish = dish,
      rec_uploader_name = [], rec_created_at = ''2024-01-01T00:00:00.000Z''\<rparr>"

definition example_records :: "upload_record list" where
  "example_records =
     [example_record ''1'' ''p1'' ''Wonton Noodles'', example_record ''2'' ''p2'' ''Noodles'',
      example_record ''3'' ''p1'' ''Milk tea'']"

definition example_reviews :: "review list" where
  "example_reviews =
     [example_review ''Great noodles and amazing broth, noodles!'', example_review ''Nice tea'']"

text \<open>The body that \<open>api_place\<close> answers for this provider and a store of entries \<open>md\<close>.\<close>

definition example_detail :: "review list \<Rightarrow> upload_record list \<Rightarrow> string \<Rightarrow> string list \<Rightarrow> unit place_detail" where
  "example_detail rs md pid terms =
     \<lparr>pd_place_id = Some pid, pd_name = None, pd_address = None, pd_location = None,
      pd_photos = [], pd_reviews = rs,
      pd_reviewsWithTerms = reviewsWithTerms terms rs,
      pd_dishCandidates = dish_candidates rs,
      pd_maps_url = googleMapsUrl (Some pid),
      pd_userPhotos = userPhotos md pid terms\<rparr>"

text \<open>An upload of a small file \<^verbatim>\<open>dish.png\<close>; the image library works or fails as a whole.\<close>

definition example_env :: "bool \<Rightarrow> string env" where
  "example_env working =
     \<lparr>uuid_file = ''f1'', uuid_record = ''r1'', now = ''2024-01-01T00:00:00.000Z'',
      extname = (\<lambda>n. if n = ''dish.png'' then ''.png'' else []),
      sharp_jpeg = (\<lambda>b w q. if working then Some (''jpeg of '' @ b) else None)\<rparr>"

definition example_file :: "string \<Rightarrow> string upload_file" where
  "example_file mt =
     \<lparr>originalname = ''dish.png'', mimetype = mt, size_bytes = 2048, content = ''bytes''\<rparr>"

definition example_request :: "string \<Rightarrow> string option \<Rightarrow> string upload_request" where
  "example_request mt pid =
     \<lparr>file_part = Some (example_file mt), body_place_id = pid, body_dish = Some ''Wonton'',
      body_uploader_name = None\<rparr>"

section \<open>Search\<close>

subsection \<open>The query\<close>

lemma includes_space: "includes_str t '' '' = (CHR '' '' \<in> set t)"
  by (induction t) auto

lemma join_concat:
  "join sep xs = (case xs of [] \<Rightarrow> [] | t # us \<Rightarrow> t @ concat (map (\<lambda>u. sep @ u) us))"
  by (induction sep xs rule: join.induct) auto

lemma build_query_spaced: "build_query terms = spaced_query terms"
proof -
  have "quote_term = (\<lambda>t. if CHR '' '' \<in> set t then [CHR 0x22] @ t @ [CHR 0x22] else t)"
    by (rule ext) (simp add: quote_term_def includes_space)
  then show ?thesis
    by (simp add: build_query_def spaced_query_def or_joined_def join_concat)
qed

subsection \<open>The fan-out\<close>

lemma promise_all_Inl:
  "x \<in> set xs \<Longrightarrow> x = Inl m \<Longrightarrow> \<exists>e. promise_all xs = Inl e"
  by (induction xs) (auto split: sum.splits)

lemma promise_all_Inr:
  "promise_all xs = Inr vs \<Longrightarrow> xs = map Inr vs"
  by (induction xs arbitrary: vs) (auto split: sum.splits)

lemma promise_all_map_Inr:
  "\<forall>x \<in> set xs. f x = Inr (g x) \<Longrightarrow> promise_all (map f xs) = Inr (map g xs)"
  by (induction xs) auto

lemma place_summary_rejected:
  "details gw (place_id p) search_fields = Inl m \<Longrightarrow> place_summary gw s p = Inl (Rejected m)"
  by (simp add: place_summary_def)

text \<open>A search whose calls all succeed answers 200 with one summary for each of the first
  twenty candidates.\<close>

lemma api_search_ok:
  assumes "search_terms tp \<noteq> []"
    and "textsearch gw (build_query (search_terms tp)) = Inr r"
    and "\<forall>p \<in> set (take 20 (or_nil r)). place_summary gw s p = Inr (g p)"
  shows "api_search gw s tp =
           Response 200 (Payload (build_query (search_terms tp), map g (take 20 (or_nil r))))"
  using assms promise_all_map_Inr[of "take 20 (or_nil r)" "place_summary gw s" g]
  by (simp add: api_search_def Let_def)

lemma example_terms: "search_terms (Some ''wonton'') = [''wonton'']"
  by code_simp

lemma example_query: "build_query [''wonton''] = ''wonton restaurants in Hong Kong''"
  by code_simp

lemma example_place_summary:
  "place_summary (example_gateway n []) example_store p = Inr (example_summary p)"
  by (simp add: place_summary_def example_gateway_def example_summary_def thumbnail_of_def
        empty_result_def)

lemma example_search_ok:
  "api_search (example_gateway 25 []) example_store (Some ''wonton'') =
     Response 200 (Payload (''wonton restaurants in Hong Kong'',
       map example_summary (take 20 (map example_place [0..<25]))))"
  using api_search_ok[of "Some ''wonton''" "example_gateway 25 []" "Some (map example_place [0..<25])"
      example_store example_summary]
  by (simp add: example_terms example_query example_place_summary or_nil_def)
     (simp add: example_gateway_def)

text \<open>
  Claim C1.  When one of the details calls that a search issues is rejected, the whole
  request is answered with status 500 and the error body \<^verbatim>\<open>Search failed\<close>; no list of
  results is returned, whatever the other calls gave.
\<close>

theorem search_fails_whole:
  assumes "p \<in> set (detail_fetches gw tp)"
    and "details gw (place_id p) search_fields = Inl m"
  shows "\<exists>e. api_search gw s tp = Response 500 (Error_details ''Search failed'' e)"
proof -
  from assms(1) have ne: "search_terms tp \<noteq> []"
    by (auto simp: detail_fetches_def Let_def split: if_splits)
  from assms(1) ne obtain r where ts: "textsearch gw (build_query (search_terms tp)) = Inr r"
    and mem: "p \<in> set (take 20 (or_nil r))"
    by (cases "textsearch gw (build_query (search_terms tp))")
       (auto simp: detail_fetches_def Let_def)
  from mem assms(2) have "Inl (Rejected m) \<in> set (map (place_summary gw s) (take 20 (or_nil r)))"
    using place_summary_rejected[of gw p m s] by force
  then obtain e where "promise_all (map (place_summary gw s) (take 20 (or_nil r))) = Inl e"
    using promise_all_Inl by blast
  with ne ts show ?thesis
    by (simp add: api_search_def Let_def)
qed

text \<open>Five candidates, the details call of the third is rejected: status 500.\<close>

theorem search_fails_whole_witness:
  "example_place 2 \<in> set (detail_fetches (example_gateway 5 [''placexx'']) (Some ''wonton''))
   \<and> details (example_gateway 5 [''placexx'']) (place_id (example_place 2)) search_fields
       = Inl ''timeout''
   \<and> (\<exists>e. api_search (example_gateway 5 [''placexx'']) example_store (Some ''wonton'')
            = Response 500 (Error_details ''Search failed'' e))"
proof -
  have a: "example_place 2 \<in> set (detail_fetches (example_gateway 5 [''placexx'']) (Some ''wonton''))"
    by (simp add: detail_fetches_def example_terms example_gateway_def or_nil_def
          upt_rec[of 0 5] upt_rec[of 1 5] upt_rec[of 2 5])
  have b: "details (example_gateway 5 [''placexx'']) (place_id (example_place 2)) search_fields
             = Inl ''timeout''"
    by (simp add: example_gateway_def example_place_def or_empty_def numeral_2_eq_2)
  from search_fails_whole[OF a b] a b show ?thesis by blast
qed

text \<open>
  Claim C2.  A search that answers 200 returns at most twenty results, as many as the
  provider listed when it listed fewer; the result at each position is the summary made
  for the candidate at the same position of the provider's list.
\<close>

theorem search_first_twenty:
  assumes "api_search gw s tp = Response 200 (Payload (q, rs))"
  shows "\<exists>r. textsearch gw q = Inr r
           \<and> length rs \<le> 20
           \<and> length rs = min 20 (length (or_nil r))
           \<and> (\<forall>i < length rs. place_summary gw s (or_nil r ! i) = Inr (rs ! i))"
proof -
  from assms have ne: "search_terms tp \<noteq> []"
    by (auto simp: api_search_def Let_def split: if_splits)
  from assms ne obtain r where ts: "textsearch gw (build_query (search_terms tp)) = Inr r"
    and pa: "promise_all (map (place_summary gw s) (take 20 (or_nil r))) = Inr rs"
    and q: "q = build_query (search_terms tp)"
    by (cases "textsearch gw (build_query (search_terms tp))")
       (auto simp: api_search_def Let_def split: sum.splits)
  from pa have eq: "map (place_summary gw s) (take 20 (or_nil r)) = map Inr rs"
    by (rule promise_all_Inr)
  then have len: "length rs = min 20 (length (or_nil r))"
    by (metis length_map length_take min.commute)
  have "\<forall>i < length rs. place_summary gw s (or_nil r ! i) = Inr (rs ! i)"
  proof (intro allI impI)
    fix i assume i: "i < length rs"
    then have "map (place_summary gw s) (take 20 (or_nil r)) ! i = Inr (rs ! i)"
      using eq by simp
    moreover have "i < length (take 20 (or_nil r))" using i len by simp
    ultimately show "place_summary gw s (or_nil r ! i) = Inr (rs ! i)"
      by simp
  qed
  with ts q len show ?thesis by auto
qed

text \<open>The provider lists twenty-five candidates; the answer holds the first twenty.\<close>

theorem search_first_twenty_witness:
  "api_search (example_gateway 25 []) example_store (Some ''wonton'') =
     Response 200 (Payload (''wonton restaurants in Hong Kong'',
       map example_summary (take 20 (map example_place [0..<25]))))
   \<and> (\<exists>r. textsearch (example_gateway 25 []) ''wonton restaurants in Hong Kong'' = Inr r
           \<and> length (map example_summary (take 20 (map example_place [0..<25]))) \<le> 20
           \<and> length (map example_summary (take 20 (map example_place [0..<25])))
               = min 20 (length (or_nil r))
           \<and> (\<forall>i < length (map example_summary (take 20 (map example_place [0..<25]))).
                 place_summary (example_gateway 25 []) example_store (or_nil r ! i)
                 = Inr (map example_summary (take 20 (map example_place [0..<25])) ! i)))"
  using search_first_twenty[OF example_search_ok] example_search_ok by blast

subsection \<open>The query of a search\<close>

text \<open>
  Claim C7, amended.  The query is the terms joined by \<open>OR\<close>, with every term that
  contains a space character (U+0020) in double quotes, followed by the qualifier
  \<^verbatim>\<open>restaurants in Hong Kong\<close>; a search that answers 200 sent this query to the provider and
  reports it.  The terms \<^verbatim>\<open>wonton\<close> and \<^verbatim>\<open>beef brisket\<close> give
  \<^verbatim>\<open>wonton OR "beef brisket" restaurants in Hong Kong\<close>.
\<close>

theorem search_query_built:
  "build_query terms = spaced_query terms
   \<and> (api_search gw s tp = Response 200 (Payload (q, rs)) \<longrightarrow>
        search_terms tp \<noteq> [] \<and> q = spaced_query (search_terms tp)
        \<and> (\<exists>r. textsearch gw q = Inr r))"
proof (intro conjI impI)
  show "build_query terms = spaced_query terms" by (rule build_query_spaced)
next
  assume a: "api_search gw s tp = Response 200 (Payload (q, rs))"
  then show ne: "search_terms tp \<noteq> []"
    by (auto simp: api_search_def Let_def split: if_splits)
  from a ne show q: "q = spaced_query (search_terms tp)"
    by (auto simp: api_search_def Let_def build_query_spaced split: sum.splits)
  from a ne show "\<exists>r. textsearch gw q = Inr r"
    by (cases "textsearch gw (build_query (search_terms tp))")
       (auto simp: api_search_def Let_def split: sum.splits)
qed

lemma example_terms2: "search_terms (Some ''wonton, beef brisket'') = [''wonton'', ''beef brisket'']"
  by code_simp

lemma example_query2:
  "build_query [''wonton'', ''beef brisket'']
     = ''wonton OR '' @ [CHR 0x22] @ ''beef brisket'' @ [CHR 0x22] @ '' restaurants in Hong Kong''"
  by code_simp

lemma example_search_ok2:
  "api_search (example_gateway 1 []) example_store (Some ''wonton, beef brisket'') =
     Response 200 (Payload
       (''wonton OR '' @ [CHR 0x22] @ ''beef brisket'' @ [CHR 0x22] @ '' restaurants in Hong Kong'',
        [example_summary (example_place 0)]))"
  using api_search_ok[of "Some ''wonton, beef brisket''" "example_gateway 1 []"
      "Some (map example_place [0..<1])" example_store example_summary]
  by (simp add: example_terms2 example_query2 example_place_summary or_nil_def)
     (simp add: example_gateway_def)

theorem search_query_built_witness:
  "api_search (example_gateway 1 []) example_store (Some ''wonton, beef brisket'') =
     Response 200 (Payload
       (''wonton OR '' @ [CHR 0x22] @ ''beef brisket'' @ [CHR 0x22] @ '' restaurants in Hong Kong'',
        [example_summary (example_place 0)]))
   \<and> search_terms (Some ''wonton, beef brisket'') = [''wonton'', ''beef brisket'']
   \<and> ''wonton OR '' @ [CHR 0x22] @ ''beef brisket'' @ [CHR 0x22] @ '' restaurants in Hong Kong''
       = spaced_query [''wonton'', ''beef brisket'']"
  using search_query_built[of "[]" "example_gateway 1 []" example_store "Some ''wonton, beef brisket''"
      "''wonton OR '' @ [CHR 0x22] @ ''beef brisket'' @ [CHR 0x22] @ '' restaurants in Hong Kong''"
      "[example_summary (example_place 0)]"]
    example_search_ok2 example_terms2
  by simp

text \<open>A term with a tab inside is white space to \<^verbatim>\<open>trim\<close>, and is not quoted.\<close>

theorem search_query_counterexample:
  "search_terms (Some (''beef'' @ [CHR 0x09] @ ''brisket'')) = [''beef'' @ [CHR 0x09] @ ''brisket'']
   \<and> is_js_space (CHR 0x09)
   \<and> build_query [''beef'' @ [CHR 0x09] @ ''brisket'']
       = ''beef'' @ [CHR 0x09] @ ''brisket restaurants in Hong Kong''
   \<and> build_query [''beef'' @ [CHR 0x09] @ ''brisket'']
       \<noteq> claimed_query [''beef'' @ [CHR 0x09] @ ''brisket'']"
  by code_simp

section \<open>Place details\<close>

subsection \<open>Matching terms\<close>

lemma startsWith_prefix: "startsWith s t = prefix t s"
  by (induction s t rule: startsWith.induct) auto

lemma includes_sublist: "includes_str s t = sublist t s"
  by (induction s) (auto simp: startsWith_prefix sublist_Cons_right)

lemma some_included_iff: "some_included terms s = (\<exists>t \<in> set terms. sublist t s)"
  by (simp add: some_included_def list_ex_iff includes_sublist)

lemma reviewsWithTerms_filter:
  "reviewsWithTerms terms rs =
     filter (\<lambda>r. \<exists>t \<in> set terms. sublist t (toLowerCase (or_empty (review_text r)))) rs"
  by (cases terms) (simp_all add: reviewsWithTerms_def some_included_iff Let_def)

lemma toLowerCase_Nil_iff: "toLowerCase s = [] \<longleftrightarrow> s = []"
  by (simp add: toLowerCase_def)

lemma place_terms_set:
  "set (place_terms tp) =
     {toLowerCase (trim u) | u. u \<in> set (split_char CHR '','' (or_empty tp)) \<and> trim u \<noteq> []}"
  by (auto simp: place_terms_def filter_Boolean_def toLowerCase_Nil_iff)

text \<open>What a 200 answer of \<open>api_place\<close> is made of.\<close>

lemma api_place_ok:
  assumes "api_place gw s pp tp = Response 200 (Payload d)"
  shows "\<exists>pid r metadata. pp = Some pid \<and> pid \<noteq> [] \<and> details gw (Some pid) place_fields = Inr r
           \<and> readMetadata s = Arr metadata
           \<and> pd_reviews d = map review_of (or_nil (reviews (case r of None \<Rightarrow> empty_result | Some v \<Rightarrow> v)))
           \<and> pd_reviewsWithTerms d = reviewsWithTerms (place_terms tp) (pd_reviews d)
           \<and> pd_dishCandidates d = dish_candidates (pd_reviews d)
           \<and> pd_userPhotos d = userPhotos metadata pid (place_terms tp)"
  using assms
  by (auto simp: api_place_def Let_def split: option.splits if_splits sum.splits parsed.splits)

lemma review_of_example: "review_of (example_review t) = example_review t"
  by (simp add: review_of_def example_review_def)

lemma example_place_ok:
  "api_place (review_gateway example_reviews) (disk (Records md)) (Some ''p1'') tp =
     Response 200 (Payload (example_detail example_reviews md ''p1'' (place_terms tp)))"
  by (simp add: api_place_def review_gateway_def disk_def readMetadata_def
        example_detail_def empty_result_def or_nil_def example_reviews_def review_of_example Let_def)

lemma example_place_terms: "place_terms (Some '' Noodles,'') = [''noodles'']"
  by code_simp

lemma example_with_terms:
  "reviewsWithTerms [''noodles''] example_reviews
     = [example_review ''Great noodles and amazing broth, noodles!'']"
  by code_simp

lemma example_userPhotos:
  "userPhotos example_records ''p1'' [''noodles'']
     = [user_photo_of (example_record ''1'' ''p1'' ''Wonton Noodles'')]"
  by code_simp

text \<open>Without terms no review matches, and every entry of the place is listed.\<close>

lemma reviewsWithTerms_no_terms: "reviewsWithTerms [] rs = []"
  by (simp add: reviewsWithTerms_def)

lemma userPhotos_no_terms:
  "userPhotos metadata pid [] = map user_photo_of (filter (\<lambda>m. rec_place_id m = pid) metadata)"
  by (simp add: userPhotos_def)

text \<open>
  Claim C3.  In a 200 answer of the place endpoint, \<open>reviewsWithTerms\<close> holds reviews of
  \<open>reviews\<close> only; it is empty when the request has no terms; and a review of \<open>reviews\<close> is in
  it exactly when its lower-cased text has one of the terms as a contiguous substring.  The
  terms are the comma-separated pieces of the parameter, trimmed and lower-cased, without
  the empty ones.
\<close>

theorem reviews_with_terms:
  assumes "api_place gw s pp tp = Response 200 (Payload d)"
  shows "set (pd_reviewsWithTerms d) \<subseteq> set (pd_reviews d)
         \<and> (place_terms tp = [] \<longrightarrow> pd_reviewsWithTerms d = [])
         \<and> (\<forall>r \<in> set (pd_reviews d).
               r \<in> set (pd_reviewsWithTerms d) \<longleftrightarrow>
               (\<exists>t \<in> set (place_terms tp). sublist t (toLowerCase (or_empty (review_text r)))))
         \<and> set (place_terms tp) =
             {toLowerCase (trim u) | u. u \<in> set (split_char CHR '','' (or_empty tp)) \<and> trim u \<noteq> []}"
proof -
  from api_place_ok[OF assms]
  have eq: "pd_reviewsWithTerms d = reviewsWithTerms (place_terms tp) (pd_reviews d)" by blast
  show ?thesis
    unfolding eq reviewsWithTerms_filter using place_terms_set[of tp] by auto
qed

text \<open>Two reviews, one of them mentions noodles; the term is \<^verbatim>\<open>Noodles\<close>.\<close>

theorem reviews_with_terms_witness:
  "api_place (review_gateway example_reviews) (disk (Records example_records)) (Some ''p1'')
       (Some '' Noodles,'')
     = Response 200 (Payload (example_detail example_reviews example_records ''p1'' [''noodles'']))
   \<and> pd_reviewsWithTerms (example_detail example_reviews example_records ''p1'' [''noodles''])
       = [example_review ''Great noodles and amazing broth, noodles!'']
   \<and> set (pd_reviewsWithTerms (example_detail example_reviews example_records ''p1'' [''noodles'']))
       \<subseteq> set (pd_reviews (example_detail example_reviews example_records ''p1'' [''noodles'']))
   \<and> ((example_review ''Great noodles and amazing broth, noodles!''
          \<in> set (pd_reviewsWithTerms (example_detail example_reviews example_records ''p1'' [''noodles''])))
        = (\<exists>t \<in> set [''noodles''].
             sublist t (toLowerCase (or_empty
               (review_text (example_review ''Great noodles and amazing broth, noodles!''))))))
   \<and> ((example_review ''Nice tea''
          \<in> set (pd_reviewsWithTerms (example_detail example_reviews example_records ''p1'' [''noodles''])))
        = (\<exists>t \<in> set [''noodles''].
             sublist t (toLowerCase (or_empty (review_text (example_review ''Nice tea''))))))"
proof -
  have h: "api_place (review_gateway example_reviews) (disk (Records example_records)) (Some ''p1'')
       (Some '' Noodles,'')
     = Response 200 (Payload (example_detail example_reviews example_records ''p1'' [''noodles'']))"
    using example_place_ok[of example_records "Some '' Noodles,''"] by (simp add: example_place_terms)
  have w: "pd_reviewsWithTerms (example_detail example_reviews example_records ''p1'' [''noodles''])
       = [example_review ''Great noodles and amazing broth, noodles!'']"
    by (simp add: example_detail_def example_with_terms)
  have m1: "example_review ''Great noodles and amazing broth, noodles!''
              \<in> set (pd_reviews (example_detail example_reviews example_records ''p1'' [''noodles'']))"
    by (simp add: example_detail_def example_reviews_def)
  have m2: "example_review ''Nice tea''
              \<in> set (pd_reviews (example_detail example_reviews example_records ''p1'' [''noodles'']))"
    by (simp add: example_detail_def example_reviews_def)
  from reviews_with_terms[OF h, unfolded example_place_terms] h w m1 m2 show ?thesis
    by blast
qed

text \<open>
  Claim C9.  In a 200 answer of the place endpoint, \<open>userPhotos\<close> is made, in the order of the
  metadata file, of the entries whose \<open>place_id\<close> is the requested one and whose lower-cased
  \<open>dish\<close> has one of the terms as a substring; without terms every entry of the place is
  taken.
\<close>

theorem user_photos_filtered:
  assumes "api_place gw s (Some pid) tp = Response 200 (Payload d)"
  shows "\<exists>metadata. readMetadata s = Arr metadata
           \<and> pd_userPhotos d =
               map user_photo_of
                 (filter (\<lambda>m. rec_place_id m = pid
                               \<and> (place_terms tp = []
                                  \<or> (\<exists>t \<in> set (place_terms tp). sublist t (toLowerCase (rec_dish m)))))
                    metadata)"
proof -
  from api_place_ok[OF assms] obtain metadata where
    rm: "readMetadata s = Arr metadata" and
    up: "pd_userPhotos d = userPhotos metadata pid (place_terms tp)" by auto
  have "userPhotos metadata pid (place_terms tp) =
          map user_photo_of
            (filter (\<lambda>m. rec_place_id m = pid
                          \<and> (place_terms tp = []
                             \<or> (\<exists>t \<in> set (place_terms tp). sublist t (toLowerCase (rec_dish m)))))
               metadata)"
    by (cases "place_terms tp") (auto simp: userPhotos_def some_included_iff conj_commute intro: filter_cong)
  with rm up show ?thesis by simp
qed

text \<open>Three entries, two of the place, one of them with noodles in its dish.\<close>

theorem user_photos_filtered_witness:
  "api_place (review_gateway example_reviews) (disk (Records example_records)) (Some ''p1'')
       (Some '' Noodles,'')
     = Response 200 (Payload (example_detail example_reviews example_records ''p1'' [''noodles'']))
   \<and> pd_userPhotos (example_detail example_reviews example_records ''p1'' [''noodles''])
       = [user_photo_of (example_record ''1'' ''p1'' ''Wonton Noodles'')]
   \<and> (\<exists>metadata. readMetadata (disk (Records example_records)) = Arr metadata
         \<and> pd_userPhotos (example_detail example_reviews example_records ''p1'' [''noodles'']) =
             map user_photo_of
               (filter (\<lambda>m. rec_place_id m = ''p1''
                             \<and> ([''noodles''] = ([] :: string list)
                                \<or> (\<exists>t \<in> set [''noodles'']. sublist t (toLowerCase (rec_dish m)))))
                  metadata))"
proof -
  have h: "api_place (review_gateway example_reviews) (disk (Records example_records)) (Some ''p1'')
       (Some '' Noodles,'')
     = Response 200 (Payload (example_detail example_reviews example_records ''p1'' [''noodles'']))"
    using example_place_ok[of example_records "Some '' Noodles,''"] by (simp add: example_place_terms)
  have w: "pd_userPhotos (example_detail example_reviews example_records ''p1'' [''noodles''])
       = [user_photo_of (example_record ''1'' ''p1'' ''Wonton Noodles'')]"
    by (simp add: example_detail_def example_userPhotos)
  from user_photos_filtered[OF h, unfolded example_place_terms] h w show ?thesis
    by blast
qed

subsection \<open>Keywords\<close>

text \<open>The pieces of a split are made of word characters, and together they are the word
  characters of the string.\<close>

lemma filter_dropWhile_not: "filter P (dropWhile (\<lambda>d. \<not> P d) s) = filter P s"
  by (induction s) auto

lemma concat_split_nonword: "concat (split_nonword cur s) = cur @ filter is_word_char s"
  by (induction cur s rule: split_nonword.induct) (simp_all add: filter_dropWhile_not)

lemma split_nonword_words:
  "list_all is_word_char cur \<Longrightarrow> w \<in> set (split_nonword cur s) \<Longrightarrow> list_all is_word_char w"
  by (induction cur s rule: split_nonword.induct) (auto split: if_splits)

text \<open>Counting the kept tokens one after the other builds the object \<open>counted\<close>.\<close>

lemma first_seen_snoc:
  "first_seen (xs @ [w]) = (if w \<in> set xs then first_seen xs else first_seen xs @ [w])"
  by (simp add: first_seen_def)

lemma set_first_seen [simp]: "set (first_seen xs) = set xs"
  by (simp add: first_seen_def)

lemma insort_insert_after:
  "insort_key f x (insert_after f w ys) = insert_after f w (insort_key f x ys)"
  by (induction ys) auto

lemma sort_key_snoc: "sort_key f (xs @ [w]) = insert_after f w (sort_key f xs)"
  by (induction xs) (simp_all add: insort_insert_after)

lemma replace_value_map:
  "replace_value w v (map (\<lambda>k. (k, h k)) ks) = map (\<lambda>k. (k, if k = w then v else h k)) ks"
  by (induction ks) auto

lemma insert_index_map:
  "w \<notin> set ks \<Longrightarrow>
   insert_index w v (map (\<lambda>k. (k, h k)) ks)
     = map (\<lambda>k. (k, if k = w then v else h k)) (insert_after index_value w ks)"
  by (induction ks) auto

lemma entries_counted:
  "entries (counted ps) = map (\<lambda>k. (k, Num (count_list ps k))) (key_order ps)"
  by (simp add: entries_def counted_def key_order_def)

lemma set_key_order [simp]: "set (key_order ps) = set ps"
  by (auto simp: key_order_def)

lemma own_property_counted:
  "own_property (counted ps) w = (if w \<in> set ps then Some (Num (count_list ps w)) else None)"
  by (simp add: own_property_def entries_counted map_of_map_restrict restrict_map_def)

lemma count_list_snoc: "count_list (ps @ [w]) k = count_list ps k + (if k = w then 1 else 0)"
  by (induction ps) auto

lemma indexed_counted:
  "indexed (counted ps) = map (\<lambda>k. (k, Num (count_list ps k)))
            (sort_key index_value (first_seen (filter is_array_index ps)))"
  by (simp add: counted_def)

lemma named_counted:
  "named (counted ps) = map (\<lambda>k. (k, Num (count_list ps k)))
            (first_seen (filter (\<lambda>w. \<not> is_array_index w) ps))"
  by (simp add: counted_def)

lemma counted_eqI:
  "indexed obj = indexed (counted ps) \<Longrightarrow> named obj = named (counted ps) \<Longrightarrow> obj = counted ps"
  by (cases obj) (simp add: counted_def)

lemma put_old:
  assumes "w \<in> set ps"
  shows "put_property w (Num (Suc (count_list ps w))) (counted ps) = counted (ps @ [w])"
proof (rule counted_eqI)
  have own: "own_property (counted ps) w \<noteq> None"
    using assms by (simp add: own_property_counted)
  show "indexed (put_property w (Num (Suc (count_list ps w))) (counted ps)) = indexed (counted (ps @ [w]))"
    using own assms
    by (simp add: put_property_def indexed_counted replace_value_map first_seen_snoc count_list_snoc)
  show "named (put_property w (Num (Suc (count_list ps w))) (counted ps)) = named (counted (ps @ [w]))"
    using own assms
    by (simp add: put_property_def named_counted replace_value_map first_seen_snoc count_list_snoc)
qed

lemma put_new:
  assumes "w \<notin> set ps"
  shows "put_property w (Num 1) (counted ps) = counted (ps @ [w])"
proof (rule counted_eqI)
  have own: "own_property (counted ps) w = None"
    using assms by (simp add: own_property_counted)
  have c: "count_list ps w = 0" using assms by simp
  show "indexed (put_property w (Num 1) (counted ps)) = indexed (counted (ps @ [w]))"
    using own assms c
    by (simp add: put_property_def indexed_counted first_seen_snoc count_list_snoc
          sort_key_snoc insert_index_map)
  show "named (put_property w (Num 1) (counted ps)) = named (counted (ps @ [w]))"
    using own assms c
    by (simp add: put_property_def named_counted first_seen_snoc count_list_snoc)
qed

lemma step_counted:
  assumes "w \<notin> set inherited_names"
  shows "step (counted ps) w = counted (ps @ [w])"
proof (cases "w \<in> set ps")
  case True
  have "step (counted ps) w = put_property w (Num (Suc (count_list ps w))) (counted ps)"
    using assms True
    by (simp add: step_def assign_def next_count_def own_property_counted inherited_names_def)
  with True show ?thesis by (simp add: put_old)
next
  case False
  have "step (counted ps) w = put_property w (Num 1) (counted ps)"
    using assms False
    by (simp add: step_def assign_def next_count_def own_property_counted inherited_names_def)
  with False show ?thesis using put_new[of w ps] by simp
qed

lemma foldl_step_counted:
  "set ws \<inter> set inherited_names = {} \<Longrightarrow> foldl step (counted ps) ws = counted (ps @ ws)"
proof (induction ws arbitrary: ps)
  case Nil
  then show ?case by simp
next
  case (Cons w ws)
  then have "w \<notin> set inherited_names" and "set ws \<inter> set inherited_names = {}" by auto
  with Cons.IH[of "ps @ [w]"] show ?case by (simp add: step_counted)
qed

lemma foldl_count_word:
  "foldl count_word obj ws
     = foldl step obj (filter (\<lambda>w. 1 < length w \<and> w \<notin> set stop_words) ws)"
  by (induction ws arbitrary: obj) (auto simp: count_word_def step_def)

lemma counted_Nil: "counted [] = Obj [] []"
  by (simp add: counted_def first_seen_def)

lemma wordCounts_counted:
  assumes "set (kept_tokens rs) \<inter> set inherited_names = {}"
  shows "wordCounts rs = counted (kept_tokens rs)"
  using foldl_step_counted[OF assms, of "[]"]
  by (simp add: wordCounts_def foldl_count_word kept_tokens_def counted_Nil)

text \<open>On numbers the comparator sorts by falling count, as \<open>sort_key\<close> does.\<close>

lemma insert_sorted_map:
  "insert_sorted (k, Num n) (map (\<lambda>e. (fst e, Num (snd e))) bs)
     = map (\<lambda>e. (fst e, Num (snd e))) (insort_key (\<lambda>e. - int (snd e)) (k, n) bs)"
  by (induction bs) (auto simp: not_after_def comparator_def)

lemma sort_entries_map:
  "sort_entries (map (\<lambda>e. (fst e, Num (snd e))) es)
     = map (\<lambda>e. (fst e, Num (snd e))) (sort_key (\<lambda>e. - int (snd e)) es)"
proof (induction es)
  case Nil
  then show ?case by (simp add: sort_entries_def)
next
  case (Cons e es)
  then show ?case
    using insert_sorted_map[of "fst e" "snd e" "sort_key (\<lambda>e. - int (snd e)) es"]
    by (simp add: sort_entries_def)
qed

lemma length_by_count: "length (by_count toks keys) \<le> 10"
  by (simp add: by_count_def)

text \<open>Without array indices among the tokens the order of the keys is the first-seen order.\<close>

lemma key_order_first_seen:
  "\<forall>w \<in> set toks. \<not> is_array_index w \<Longrightarrow> key_order toks = first_seen toks"
  by (simp add: key_order_def first_seen_def filter_False)

lemma example_tokens:
  "kept_tokens [example_review ''Great noodles and amazing broth, noodles!'']
     = [''great'', ''noodles'', ''amazing'', ''broth'', ''noodles'']"
  by code_simp

lemma example_listed:
  "listed_candidates [''great'', ''noodles'', ''amazing'', ''broth'', ''noodles'']
     = [''noodles'', ''great'', ''amazing'', ''broth'']"
  by code_simp

text \<open>
  Claim C4, amended.  For reviews whose kept tokens are not the inherited property names
  \<^verbatim>\<open>constructor\<close> and \<^verbatim>\<open>__proto__\<close>, \<open>dishCandidates\<close> is computed from the texts joined by spaces
  and lower-cased, split at runs of non-word characters, without the tokens of length at
  most one and the stop words: the tokens are counted, sorted by falling count with ties
  in the order of the keys of the counting object (array indices in ascending numeric
  order first, then the other tokens in first-seen order), and the first ten are returned.
  The text \<^verbatim>\<open>Great noodles and amazing broth, noodles!\<close> gives \<^verbatim>\<open>noodles\<close> first.
\<close>

theorem dish_candidates_listed:
  assumes "''constructor'' \<notin> set (kept_tokens rs)" and "''__proto__'' \<notin> set (kept_tokens rs)"
  shows "dish_candidates rs = Candidates (listed_candidates (kept_tokens rs))"
proof -
  let ?toks = "kept_tokens rs"
  let ?es = "map (\<lambda>w. (w, count_list ?toks w)) (key_order ?toks)"
  from assms have "set ?toks \<inter> set inherited_names = {}"
    by (auto simp: inherited_names_def)
  then have wc: "wordCounts rs = counted ?toks" by (rule wordCounts_counted)
  have es: "entries (wordCounts rs) = map (\<lambda>e. (fst e, Num (snd e))) ?es"
    by (simp add: wc entries_counted o_def)
  have nums: "list_all (\<lambda>e. is_num (snd e)) (entries (wordCounts rs))"
    by (simp add: es list_all_iff is_num_def)
  have "sort_entries (entries (wordCounts rs))
          = map (\<lambda>e. (fst e, Num (snd e))) (sort_key (\<lambda>e. - int (snd e)) ?es)"
    unfolding es by (rule sort_entries_map)
  then have "map fst (take 10 (sort_entries (entries (wordCounts rs))))
          = map fst (take 10 (sort_key (\<lambda>e. - int (snd e)) ?es))"
    by (simp add: take_map o_def)
  with nums show ?thesis
    by (simp add: dish_candidates_def Let_def listed_candidates_def by_count_def)
qed

theorem dish_candidates_listed_witness:
  "''constructor'' \<notin> set (kept_tokens [example_review ''Great noodles and amazing broth, noodles!''])
   \<and> ''__proto__'' \<notin> set (kept_tokens [example_review ''Great noodles and amazing broth, noodles!''])
   \<and> dish_candidates [example_review ''Great noodles and amazing broth, noodles!'']
       = Candidates [''noodles'', ''great'', ''amazing'', ''broth'']"
proof -
  have a: "''constructor'' \<notin> set (kept_tokens [example_review ''Great noodles and amazing broth, noodles!''])"
    by (simp add: example_tokens)
  have b: "''__proto__'' \<notin> set (kept_tokens [example_review ''Great noodles and amazing broth, noodles!''])"
    by (simp add: example_tokens)
  from dish_candidates_listed[OF a b] a b show ?thesis
    by (simp add: example_tokens example_listed)
qed

text \<open>A number among the tokens comes before a word seen earlier with the same count.\<close>

theorem dish_candidates_counterexample:
  "kept_tokens [example_review ''pho 12''] = [''pho'', ''12'']
   \<and> claimed_candidates [''pho'', ''12''] = [''pho'', ''12'']
   \<and> dish_candidates [example_review ''pho 12''] = Candidates [''12'', ''pho'']"
  by code_simp

text \<open>The two inherited names: one makes the comparator inconsistent, the other is never
  counted.\<close>

lemma dish_candidates_constructor:
  "dish_candidates [example_review ''the constructor of noodles''] = Unspecified_order"
  by code_simp

lemma dish_candidates_proto:
  "dish_candidates [example_review ''__proto__ noodles''] = Candidates [''noodles'']"
  by code_simp

section \<open>Upload\<close>

lemma meta_generateResizedVariants:
  "meta (fst (generateResizedVariants ev s n)) = meta s"
  by (simp add: generateResizedVariants_def Let_def split: option.splits)

lemma readMetadata_generateResizedVariants:
  "readMetadata (fst (generateResizedVariants ev s n)) = readMetadata s"
  by (simp add: readMetadata_def meta_generateResizedVariants)

lemma readMetadata_files_update: "readMetadata (s\<lparr>files := x\<rparr>) = readMetadata s"
  by (simp add: readMetadata_def)

lemma upload_single_valid:
  assumes "file_part req = Some f" and "startsWith (mimetype f) ''image/''"
    and "size_bytes f \<le> fileSize_limit"
  shows "upload_single ev s req =
           (s\<lparr>files := (files s)(storage_filename ev f \<mapsto> content f)\<rparr>,
            Inr (Some (storage_filename ev f)))"
  using assms by (simp add: upload_single_def fileFilter_def)

lemma example_image: "startsWith (mimetype (example_file ''image/png'')) ''image/''"
  by (simp add: example_file_def)

lemma example_size: "size_bytes (example_file mt) \<le> fileSize_limit"
  by (simp add: example_file_def fileSize_limit_def)

lemma example_part: "file_part (example_request mt pid) = Some (example_file mt)"
  by (simp add: example_request_def)

lemma example_storage_filename: "storage_filename (example_env w) (example_file mt) = ''f1.png''"
  by (simp add: storage_filename_def example_env_def example_file_def)

lemma example_variants_fail:
  "snd (generateResizedVariants (example_env False)
         (fst (upload_single (example_env False) (disk m) (example_request ''image/png'' (Some ''p1''))))
         (storage_filename (example_env False) (example_file ''image/png''))) = Inl Sharp_error"
  by (simp add: upload_single_valid[OF example_part example_image example_size]
        generateResizedVariants_def example_storage_filename)
     (simp add: example_env_def)

text \<open>When the metadata file holds JSON that is not an array, \<^verbatim>\<open>metadata.push\<close> throws and a
  valid upload is answered with status 500, whether the derived images were made or not.\<close>

lemma upload_over_non_array:
  assumes "file_part req = Some f" and "startsWith (mimetype f) ''image/''"
    and "size_bytes f \<le> fileSize_limit"
    and "truthy (body_place_id req)"
    and "meta s = Not_array"
  shows "snd (api_upload ev s req) = Response 500 (Error_details ''Upload failed'' Type_error)"
proof -
  let ?s0 = "s\<lparr>files := (files s)(storage_filename ev f \<mapsto> content f)\<rparr>"
  let ?g = "generateResizedVariants ev ?s0 (storage_filename ev f)"
  have us: "upload_single ev s req = (?s0, Inr (Some (storage_filename ev f)))"
    using assms(1-3) by (rule upload_single_valid)
  have "readMetadata s = Other" using assms(5) by (simp add: readMetadata_def)
  then have rm: "readMetadata (fst ?g) = Other"
    by (simp add: readMetadata_generateResizedVariants readMetadata_files_update)
  show ?thesis
    using assms(4) rm
    by (cases ?g) (simp add: api_upload_def us upload_handler_def Let_def)
qed

text \<open>
  Claim C5.  An upload of an image within the size limit whose \<open>place_id\<close> is missing or empty
  is answered with status 400 and \<^verbatim>\<open>Missing place_id\<close>.  The middleware had written the
  original to the uploads directory; the handler unlinks it, so afterwards no file of that
  name is left, and the metadata file is as it was.
\<close>

theorem upload_without_place_id:
  assumes "file_part req = Some f" and "startsWith (mimetype f) ''image/''"
    and "size_bytes f \<le> fileSize_limit"
    and "\<not> truthy (body_place_id req)"
  shows "files (fst (upload_single ev s req)) (storage_filename ev f) = Some (content f)
         \<and> snd (api_upload ev s req) = Response 400 (Error ''Missing place_id'')
         \<and> meta (fst (api_upload ev s req)) = meta s
         \<and> files (fst (api_upload ev s req)) = (files s)(storage_filename ev f := None)"
  using assms
  by (simp add: api_upload_def upload_single_valid upload_handler_def unlinkSync_def)

theorem upload_without_place_id_witness:
  "file_part (example_request ''image/png'' (Some [])) = Some (example_file ''image/png'')
   \<and> startsWith (mimetype (example_file ''image/png'')) ''image/''
   \<and> size_bytes (example_file ''image/png'') \<le> fileSize_limit
   \<and> \<not> truthy (body_place_id (example_request ''image/png'' (Some [])))
   \<and> files (fst (upload_single (example_env True) (disk (Records example_records))
                   (example_request ''image/png'' (Some [])))) ''f1.png'' = Some ''bytes''
   \<and> snd (api_upload (example_env True) (disk (Records example_records))
             (example_request ''image/png'' (Some [])))
       = Response 400 (Error ''Missing place_id'')
   \<and> meta (fst (api_upload (example_env True) (disk (Records example_records))
                   (example_request ''image/png'' (Some []))))
       = Records example_records
   \<and> files (fst (api_upload (example_env True) (disk (Records example_records))
                   (example_request ''image/png'' (Some [])))) ''f1.png'' = None"
proof -
  have p: "\<not> truthy (body_place_id (example_request ''image/png'' (Some [])))"
    by (simp add: example_request_def truthy_def)
  from upload_without_place_id[OF example_part example_image example_size p,
      of "example_env True" "disk (Records example_records)"]
    example_part[of "''image/png''" "Some []"] example_image example_size[of "''image/png''"] p
  show ?thesis
    by (simp add: example_storage_filename) (simp add: disk_def example_file_def)
qed

text \<open>
  Claim C6.  When the generation of the two derived images throws for a valid upload, and
  the metadata file does not hold JSON of another kind than an array, the request is
  answered with status 201 and a record whose thumbnail and preview references are
  \<^verbatim>\<open>null\<close>, and this record is appended to the entries of the metadata file.
\<close>

theorem upload_survives_variant_failure:
  assumes "file_part req = Some f" and "startsWith (mimetype f) ''image/''"
    and "size_bytes f \<le> fileSize_limit"
    and "truthy (body_place_id req)"
    and "snd (generateResizedVariants ev (fst (upload_single ev s req)) (storage_filename ev f)) = Inl e"
    and "readMetadata s = Arr metadata"
  shows "\<exists>s' r. api_upload ev s req = (s', Response 201 (Payload r))
           \<and> rec_thumb_url r = None \<and> rec_preview_url r = None
           \<and> rec_filename r = storage_filename ev f
           \<and> Some (rec_place_id r) = body_place_id req
           \<and> meta s' = Records (metadata @ [r])"
proof -
  let ?s0 = "s\<lparr>files := (files s)(storage_filename ev f \<mapsto> content f)\<rparr>"
  let ?g = "generateResizedVariants ev ?s0 (storage_filename ev f)"
  have us: "upload_single ev s req = (?s0, Inr (Some (storage_filename ev f)))"
    using assms(1-3) by (rule upload_single_valid)
  from assms(5) have g: "snd ?g = Inl e" by (simp add: us)
  have rm: "readMetadata (fst ?g) = Arr metadata"
    using assms(6) by (simp add: readMetadata_generateResizedVariants readMetadata_files_update)
  from assms(4) obtain pid where pid: "body_place_id req = Some pid"
    by (cases "body_place_id req") (auto simp: truthy_def)
  show ?thesis
    using assms(4) g rm pid
    by (cases ?g)
       (simp add: api_upload_def us upload_handler_def writeMetadata_def new_record_def or_empty_def
          Let_def)
qed

theorem upload_survives_variant_failure_witness:
  "file_part (example_request ''image/png'' (Some ''p1'')) = Some (example_file ''image/png'')
   \<and> startsWith (mimetype (example_file ''image/png'')) ''image/''
   \<and> size_bytes (example_file ''image/png'') \<le> fileSize_limit
   \<and> truthy (body_place_id (example_request ''image/png'' (Some ''p1'')))
   \<and> snd (generateResizedVariants (example_env False)
         (fst (upload_single (example_env False) (disk (Records example_records))
                (example_request ''image/png'' (Some ''p1''))))
         (storage_filename (example_env False) (example_file ''image/png''))) = Inl Sharp_error
   \<and> readMetadata (disk (Records example_records)) = Arr example_records
   \<and> (\<exists>s' r. api_upload (example_env False) (disk (Records example_records))
                 (example_request ''image/png'' (Some ''p1'')) = (s', Response 201 (Payload r))
           \<and> rec_thumb_url r = None \<and> rec_preview_url r = None
           \<and> rec_filename r = storage_filename (example_env False) (example_file ''image/png'')
           \<and> Some (rec_place_id r) = body_place_id (example_request ''image/png'' (Some ''p1''))
           \<and> meta s' = Records (example_records @ [r]))"
proof -
  have p: "truthy (body_place_id (example_request ''image/png'' (Some ''p1'')))"
    by (simp add: example_request_def truthy_def)
  have r: "readMetadata (disk (Records example_records)) = Arr example_records"
    by (simp add: readMetadata_def disk_def)
  from upload_survives_variant_failure[OF example_part example_image example_size p
      example_variants_fail r]
    example_part[of "''image/png''" "Some ''p1''"] example_image example_size[of "''image/png''"] p
    example_variants_fail[of "Records example_records"] r
  show ?thesis by blast
qed

text \<open>A file part whose MIME type does not start with \<^verbatim>\<open>image/\<close> is refused by the filter
  of the middleware.  The handler does not run, and the uploads directory and the metadata
  file stay as they were; the error is left to the default error handler.\<close>

lemma non_image_refused:
  assumes "file_part req = Some f" and "\<not> startsWith (mimetype f) ''image/''"
  shows "api_upload ev s req =
           (s, default_error_handler (Filter_error ''Only image files are allowed''))"
  using assms
  by (simp add: api_upload_def upload_single_def fileFilter_def)

text \<open>
  Claim C8.  The claim is that a file whose MIME type does not start with \<^verbatim>\<open>image/\<close> is
  rejected with a validation error, status 400, before anything is written.  For a part of
  type \<^verbatim>\<open>text/plain\<close> the server does write nothing and appends no record, but it answers
  with status 500: the filter's error \<^verbatim>\<open>Only image files are allowed\<close> reaches no code that
  sets a status, while the two validation branches of the handler itself answer 400.  The
  code departs from the claim in the status.
\<close>

theorem upload_text_plain_answered_500:
  "file_part (example_request ''text/plain'' (Some ''p1'')) = Some (example_file ''text/plain'')
   \<and> \<not> startsWith (mimetype (example_file ''text/plain'')) ''image/''
   \<and> fst (api_upload (example_env True) (disk (Records example_records))
             (example_request ''text/plain'' (Some ''p1'')))
       = disk (Records example_records)
   \<and> snd (api_upload (example_env True) (disk (Records example_records))
             (example_request ''text/plain'' (Some ''p1'')))
       = Response 500 (Error_page (Filter_error ''Only image files are allowed''))
   \<and> status (snd (api_upload (example_env True) (disk (Records example_records))
                    (example_request ''text/plain'' (Some ''p1'')))) \<noteq> 400"
proof -
  have n: "\<not> startsWith (mimetype (example_file ''text/plain'')) ''image/''"
    by (simp add: example_file_def)
  from non_image_refused[OF example_part n, of "example_env True" "disk (Records example_records)"
      "Some ''p1''"]
    example_part[of "''text/plain''" "Some ''p1''"] n
  show ?thesis by (simp add: default_error_handler_def)
qed

text \<open>
  Claim C10.  When the metadata file cannot be read or does not parse, \<open>readMetadata\<close> gives
  the empty array; a valid upload is then answered with status 201, and the metadata file
  written back holds the new record alone.
\<close>

theorem upload_over_unreadable_store:
  assumes "file_part req = Some f" and "startsWith (mimetype f) ''image/''"
    and "size_bytes f \<le> fileSize_limit"
    and "truthy (body_place_id req)"
    and "meta s = Missing \<or> meta s = Malformed"
  shows "readMetadata s = Arr []
         \<and> (\<exists>s' r. api_upload ev s req = (s', Response 201 (Payload r))
               \<and> meta s' = Records [r])"
proof -
  let ?s0 = "s\<lparr>files := (files s)(storage_filename ev f \<mapsto> content f)\<rparr>"
  let ?g = "generateResizedVariants ev ?s0 (storage_filename ev f)"
  have us: "upload_single ev s req = (?s0, Inr (Some (storage_filename ev f)))"
    using assms(1-3) by (rule upload_single_valid)
  from assms(5) have r0: "readMetadata s = Arr []"
    by (auto simp: readMetadata_def)
  then have rm: "readMetadata (fst ?g) = Arr []"
    by (simp add: readMetadata_generateResizedVariants readMetadata_files_update)
  show ?thesis
    using assms(4) r0 rm
    by (cases ?g)
       (simp add: api_upload_def us upload_handler_def writeMetadata_def Let_def)
qed

theorem upload_over_unreadable_store_witness:
  "file_part (example_request ''image/png'' (Some ''p1'')) = Some (example_file ''image/png'')
   \<and> startsWith (mimetype (example_file ''image/png'')) ''image/''
   \<and> size_bytes (example_file ''image/png'') \<le> fileSize_limit
   \<and> truthy (body_place_id (example_request ''image/png'' (Some ''p1'')))
   \<and> (meta (disk Malformed) = Missing \<or> meta (disk Malformed) = Malformed)
   \<and> readMetadata (disk Malformed) = Arr []
   \<and> (\<exists>s' r. api_upload (example_env True) (disk Malformed)
                 (example_request ''image/png'' (Some ''p1'')) = (s', Response 201 (Payload r))
           \<and> meta s' = Records [r])"
proof -
  have p: "truthy (body_place_id (example_request ''image/png'' (Some ''p1'')))"
    by (simp add: example_request_def truthy_def)
  have m: "meta (disk Malformed) = Missing \<or> meta (disk Malformed) = Malformed"
    by (simp add: disk_def)
  from upload_over_unreadable_store[OF example_part example_image example_size p m]
    example_part[of "''image/png''" "Some ''p1''"] example_image example_size[of "''image/png''"] p m
  show ?thesis by blast
qed

end
